theory Spec2Isabelle
  imports Main "HOL-Library.AList"
begin


section \<open>The pipeline builder (run\_pipeline.py)\<close>

subsection \<open>Exceptions\<close>

text \<open>
  Python exceptions are values. \<open>IndexError\<close> is raised by list indexing, \<open>SystemExit\<close>
  by the argument parser; \<open>Raised e\<close> is an exception coming out of a library call
  (component loading, the job service, the data loader), whose payload the scripts never
  inspect.
\<close>

datatype 'e exn = IndexError | SystemExit int | Raised 'e

subsection \<open>Module constants\<close>

definition AML_EXPERIMENT_NAME :: string where
  "AML_EXPERIMENT_NAME = ''pf_in_pipeline_experiment''"

definition AML_PIPELINE_NAME :: string where
  "AML_PIPELINE_NAME = ''my_pipeline''"

definition AML_DATASTORE_PATH_PREFIX :: string where
  "AML_DATASTORE_PATH_PREFIX = ''azureml://datastores/workspaceblobstore/paths/''"

definition AML_DATASTORE_PREPROCESS_FILE_NAME :: string where
  "AML_DATASTORE_PREPROCESS_FILE_NAME = ''data.jsonl''"

definition AML_DATASTORE_PROMPTFLOW_FILE_NAME :: string where
  "AML_DATASTORE_PROMPTFLOW_FILE_NAME = ''pf_output.jsonl''"

definition AML_DATASTORE_POSTPROCESS_FILE_NAME :: string where
  "AML_DATASTORE_POSTPROCESS_FILE_NAME = ''postprocess.jsonl''"

text \<open>The asset type \<open>AssetTypes.URI_FILE\<close> of the SDK.\<close>

definition URI_FILE :: string where
  "URI_FILE = ''uri_file''"

subsection \<open>Pipeline data\<close>

text \<open>
  \<open>Input(path=..., type=...)\<close> and \<open>Output(path=..., type=..., mode=...)\<close> are plain
  records of their keyword arguments.
\<close>

record Input =
  input_path :: string
  input_type :: string

record Output =
  output_path :: string
  output_type :: string
  output_mode :: string

text \<open>
  A keyword argument given to a component is an \<open>Input\<close>, an integer or string literal,
  or the expression \<open>step.outputs.port\<close>: the port \<open>port\<close> of the node held in the
  variable \<open>step\<close>, together with the \<open>Output\<close> assigned to that port so far.
\<close>

datatype arg =
  InputArg Input
| IntArg int
| StrArg string
| NodeOutputArg string string "Output option"

text \<open>
  Calling a loaded component with keyword arguments makes a node of the pipeline graph:
  the component, the arguments in the order written, and the outputs assigned afterwards.
  The component itself is opaque (type \<open>'c\<close>). The SDK compares the keyword names
  with the inputs the component's descriptor declares and raises on a name it does not
  know; the descriptors are not part of this development, so a call here always yields
  the node. What is proved about the job of a pipeline definition is therefore about
  calls in which the entries 0, 1 and 2 of the list are components that take the keywords
  written for them, as they are after the first \<open>build_pipeline\<close> of a fresh module.
\<close>

record 'c node =
  component :: 'c
  inputs :: "(string \<times> arg) list"
  outputs :: "(string \<times> Output) list"

definition call_component :: "'c \<Rightarrow> (string \<times> arg) list \<Rightarrow> 'c node" where
  "call_component c kwargs = \<lparr>component = c, inputs = kwargs, outputs = []\<rparr>"

text \<open>\<open>n.outputs.port = out\<close>\<close>

definition set_output :: "'c node \<Rightarrow> string \<Rightarrow> Output \<Rightarrow> 'c node" where
  "set_output n port out = n\<lparr>outputs := AList.update port out (outputs n)\<rparr>"

text \<open>The expression \<open>step.outputs.port\<close>, where the variable \<open>step\<close> holds \<open>n\<close>.\<close>

definition get_output :: "string \<Rightarrow> 'c node \<Rightarrow> string \<Rightarrow> arg" where
  "get_output step n port = NodeOutputArg step port (map_of (outputs n) port)"

text \<open>
  The object the decorated function evaluates to when it is called: the name given to the
  decorator, the pipeline's own parameters, and the nodes made in the body, in the order
  they were made, each under the name of the variable it is bound to.
\<close>

record 'c pipeline_job =
  pipeline_name :: string
  job_inputs :: "(string \<times> string) list"
  jobs :: "(string \<times> 'c node) list"
  default_compute :: "string option"

subsection \<open>Module state\<close>

record ml_client =
  subscription_id :: "string option"
  resource_group_name :: "string option"
  workspace_name :: "string option"

text \<open>
  The state the script works on: the module-level list \<open>pipeline_components\<close>, and, on the
  side of the job service, the jobs submitted (with the client and the experiment name)
  and the job names whose logs were streamed.
\<close>

record 'c session =
  pipeline_components :: "'c list"
  submitted :: "(ml_client \<times> 'c pipeline_job \<times> string) list"
  streamed :: "string list"

text \<open>\<open>xs[i]\<close> for a literal index \<open>i \<ge> 0\<close>: out of range raises \<open>IndexError\<close>.\<close>

definition index :: "'a list \<Rightarrow> nat \<Rightarrow> 'e exn + 'a" where
  "index xs i = (if i < length xs then Inr (xs ! i) else Inl IndexError)"

subsection \<open>The pipeline definition\<close>

text \<open>
  The body of \<open>evaluation_pipeline\<close> runs when the pipeline definition is called, and it
  reads the module-level list at that moment: the state is an argument of the call, not
  of the construction.
\<close>

definition evaluation_pipeline ::
  "string \<Rightarrow> string \<Rightarrow> 'c session \<Rightarrow> 'e exn + 'c pipeline_job" where
  "evaluation_pipeline pname name st =
    (let pf_input_path =
           \<lparr>input_path = AML_DATASTORE_PATH_PREFIX @ AML_DATASTORE_PREPROCESS_FILE_NAME,
            input_type = URI_FILE\<rparr>;
         preprocess_output_path =
           \<lparr>output_path = AML_DATASTORE_PATH_PREFIX @ ''preprocess_output.jsonl'',
            output_type = URI_FILE, output_mode = ''direct''\<rparr>
     in case index (pipeline_components st) 0 of
          Inl e \<Rightarrow> Inl e
        | Inr c0 \<Rightarrow>
     (let preprocess = call_component c0
            [(''input_data_path'', InputArg pf_input_path), (''max_records'', IntArg 2)];
          preprocess = set_output preprocess ''output_data_path'' preprocess_output_path;
          pf_output =
            \<lparr>output_path = AML_DATASTORE_PATH_PREFIX @ AML_DATASTORE_PROMPTFLOW_FILE_NAME,
             output_type = URI_FILE, output_mode = ''direct''\<rparr>
      in case index (pipeline_components st) 1 of
           Inl e \<Rightarrow> Inl e
         | Inr c1 \<Rightarrow>
     (let experiment = call_component c1
            [(''data'', get_output ''preprocess'' preprocess ''output_data_path''),
             (''url'', StrArg ''${data.url}'')];
          experiment = set_output experiment ''flow_outputs'' pf_output
      in case index (pipeline_components st) 2 of
           Inl e \<Rightarrow> Inl e
         | Inr c2 \<Rightarrow>
     (let postprocess = call_component c2
            [(''input_data_path'', get_output ''experiment'' experiment ''flow_outputs'')]
      in Inr \<lparr>pipeline_name = pname,
              job_inputs = [(''name'', name)],
              jobs = [(''preprocess'', preprocess), (''experiment'', experiment),
                      (''postprocess'', postprocess)],
              default_compute = None\<rparr>))))"

definition create_dynamic_evaluation_pipeline ::
  "string \<Rightarrow> (string \<Rightarrow> 'c session \<Rightarrow> 'e exn + 'c pipeline_job)" where
  "create_dynamic_evaluation_pipeline pname = evaluation_pipeline pname"

subsection \<open>build\_pipeline\<close>

text \<open>
  \<open>load_component\<close> belongs to the SDK and reads the descriptor files; it is a parameter,
  returning the component or the exception it raises. The three loads come first, then the
  three appends, so a failed load leaves the list as it was.
\<close>

definition build_pipeline ::
  "(string \<Rightarrow> 'e + 'c) \<Rightarrow> string \<Rightarrow> 'c session \<Rightarrow>
     'e exn + ((string \<Rightarrow> 'c session \<Rightarrow> 'e exn + 'c pipeline_job) \<times> 'c session)" where
  "build_pipeline load_component pname st =
    (case load_component ''components/preprocess.yaml'' of
       Inl e \<Rightarrow> Inl (Raised e)
     | Inr preprocess_component \<Rightarrow>
    (case load_component ''../flows/experiment/flow.dag.yaml'' of
       Inl e \<Rightarrow> Inl (Raised e)
     | Inr evaluation_promptflow_component \<Rightarrow>
    (case load_component ''components/postprocess.yaml'' of
       Inl e \<Rightarrow> Inl (Raised e)
     | Inr postprocess_component \<Rightarrow>
    (let st1 = st\<lparr>pipeline_components := pipeline_components st @ [preprocess_component]\<rparr>;
         st2 = st1\<lparr>pipeline_components :=
                      pipeline_components st1 @ [evaluation_promptflow_component]\<rparr>;
         st3 = st2\<lparr>pipeline_components := pipeline_components st2 @ [postprocess_component]\<rparr>;
         pipeline_definition = create_dynamic_evaluation_pipeline pname
     in Inr (pipeline_definition, st3)))))"

subsection \<open>The script body\<close>

text \<open>
  \<open>get_ml_client\<close> reads three environment variables (\<open>os.getenv\<close> gives \<open>None\<close> for
  an unset one) and hands them to the client unchecked. The credential object is opaque
  and left out.
\<close>

definition get_ml_client :: "(string \<Rightarrow> string option) \<Rightarrow> ml_client" where
  "get_ml_client getenv =
     \<lparr>subscription_id = getenv ''SUBSCRIPTION_ID'',
      resource_group_name = getenv ''RESOURCE_GROUP_NAME'',
      workspace_name = getenv ''AML_WORKSPACE_NAME''\<rparr>"

text \<open>
  The \<open>__main__\<close> block. \<open>getenv\<close> is the environment after \<open>load_dotenv()\<close>;
  \<open>create_or_update\<close> is the job service, a parameter that answers with the name of the
  job it created or raises. Submission and streaming are recorded in the state; what the
  service does while streaming is not part of this development.
\<close>

definition run_pipeline_main ::
  "(string \<Rightarrow> 'e + 'c) \<Rightarrow> (string \<Rightarrow> string option) \<Rightarrow>
   (ml_client \<Rightarrow> 'c pipeline_job \<Rightarrow> string \<Rightarrow> 'e + string) \<Rightarrow>
   'c session \<Rightarrow> 'e exn + 'c session" where
  "run_pipeline_main load_component getenv create_or_update st =
    (let compute_target = getenv ''AML_COMPUTE_TARGET'';
         pname = AML_PIPELINE_NAME
     in case build_pipeline load_component pname st of
          Inl e \<Rightarrow> Inl e
        | Inr (pipeline_definition, st1) \<Rightarrow>
     (let client = get_ml_client getenv
      in case pipeline_definition pname st1 of
           Inl e \<Rightarrow> Inl e
         | Inr pipeline_job \<Rightarrow>
     (let pipeline_job = pipeline_job\<lparr>default_compute := compute_target\<rparr>
      in case create_or_update client pipeline_job AML_EXPERIMENT_NAME of
           Inl e \<Rightarrow> Inl (Raised e)
         | Inr job_name \<Rightarrow>
             Inr (st1\<lparr>submitted := submitted st1 @ [(client, pipeline_job, AML_EXPERIMENT_NAME)],
                      streamed := streamed st1 @ [job_name]\<rparr>))))"

text \<open>Building the definition and calling it with a name, as the script body does.\<close>

definition build_and_instantiate ::
  "(string \<Rightarrow> 'e + 'c) \<Rightarrow> string \<Rightarrow> string \<Rightarrow> 'c session \<Rightarrow> 'e exn + 'c pipeline_job" where
  "build_and_instantiate load_component pname name st =
     (case build_pipeline load_component pname st of
        Inl e \<Rightarrow> Inl e
      | Inr (pipeline_definition, st1) \<Rightarrow> pipeline_definition name st1)"

subsection \<open>Repeated calls\<close>

text \<open>
  \<open>n\<close> successive calls of \<open>build_pipeline\<close> in one process, each with its own view of
  the descriptor files and its own pipeline name; the first exception ends the run.
\<close>

fun build_pipeline_calls ::
  "((string \<Rightarrow> 'e + 'c) \<times> string) list \<Rightarrow> 'c session \<Rightarrow> 'e exn + 'c session" where
  "build_pipeline_calls [] st = Inr st"
| "build_pipeline_calls ((load_component, pname) # cs) st =
     (case build_pipeline load_component pname st of
        Inl e \<Rightarrow> Inl e
      | Inr (_, st') \<Rightarrow> build_pipeline_calls cs st')"

subsection \<open>Reading a pipeline job\<close>

text \<open>Every datastore path a pipeline job mentions, in its inputs and in its outputs.\<close>

fun arg_paths :: "arg \<Rightarrow> string list" where
  "arg_paths (InputArg i) = [input_path i]"
| "arg_paths (IntArg _) = []"
| "arg_paths (StrArg _) = []"
| "arg_paths (NodeOutputArg _ _ None) = []"
| "arg_paths (NodeOutputArg _ _ (Some out)) = [output_path out]"

definition node_paths :: "'c node \<Rightarrow> string list" where
  "node_paths n =
     concat (map (\<lambda>(_, a). arg_paths a) (inputs n)) @ map (\<lambda>(_, out). output_path out) (outputs n)"

definition job_paths :: "'c pipeline_job \<Rightarrow> string list" where
  "job_paths j = concat (map (\<lambda>(_, n). node_paths n) (jobs j))"


definition job_mentions :: "string \<Rightarrow> 'c pipeline_job \<Rightarrow> bool" where
  "job_mentions p j = (p \<in> set (job_paths j))"

definition stage_names :: "'c pipeline_job \<Rightarrow> string list" where
  "stage_names j = map fst (jobs j)"

definition stage_components :: "'c pipeline_job \<Rightarrow> 'c list" where
  "stage_components j = map (\<lambda>(_, n). component n) (jobs j)"

text \<open>For each stage, the datastore paths assigned to its outputs.\<close>

definition stage_output_paths :: "'c pipeline_job \<Rightarrow> (string \<times> string list) list" where
  "stage_output_paths j =
     map (\<lambda>(s, n). (s, map (\<lambda>(_, out). output_path out) (outputs n))) (jobs j)"

subsection \<open>Concrete runs\<close>

text \<open>The state when the module has just been imported.\<close>

definition initial_session :: "'c session" where
  "initial_session = \<lparr>pipeline_components = [], submitted = [], streamed = []\<rparr>"

text \<open>
  Two loaders for concrete runs: one whose component is the descriptor's path, one that
  also tags the component with a version of the descriptor files.
\<close>

definition path_loader :: "string \<Rightarrow> string + string" where
  "path_loader p = Inr p"

definition versioned_loader :: "nat \<Rightarrow> string \<Rightarrow> string + (nat \<times> string)" where
  "versioned_loader v p = Inr (v, p)"

section \<open>The postprocess script (src/postprocess.py)\<close>

subsection \<open>Argument parsing\<close>

text \<open>
  The parser has two options: \<open>-h\<close>/\<open>--help\<close>, which \<open>ArgumentParser\<close> adds by
  itself, and \<open>--input_data_path\<close>, which stores one string. It has no positional
  argument, abbreviations are off, and nothing is required. The library's treatment of
  one argument string, for this parser (CPython 3.11, ASCII digits):
  \<^item> \<open>Positional\<close>: not an option string; it can be the value of a preceding option;
  \<^item> \<open>Unknown\<close>: looks like an option, but the parser has none of that name;
  \<^item> \<open>Flag None\<close>: \<open>--input_data_path\<close>, its value is the next string;
    \<open>Flag (Some v)\<close>: \<open>--input_data_path=v\<close>;
  \<^item> \<open>HelpExit\<close>: the help action runs (help text, exit status 0);
  \<^item> \<open>UsageError\<close>: an explicit argument given to the help option (usage text,
    exit status 2).
\<close>

datatype opt_class = Positional | Unknown | Flag "string option" | HelpExit | UsageError

definition is_digit :: "char \<Rightarrow> bool" where
  "is_digit c = (c \<in> set ''0123456789'')"

text \<open>The library's pattern for negative numbers: \<open>-\<close>digits, or \<open>-\<close>digits\<open>.\<close>digits
  with at least one digit after the point; a final newline is allowed.\<close>

definition looks_negative_number :: "string \<Rightarrow> bool" where
  "looks_negative_number s =
     (let t = (if s \<noteq> [] \<and> last s = CHR 0x0A then butlast s else s)
      in case t of
           [] \<Rightarrow> False
         | c # ds \<Rightarrow>
             c = CHR ''-'' \<and>
             ((ds \<noteq> [] \<and> list_all is_digit ds) \<or>
              (case dropWhile is_digit ds of
                 [] \<Rightarrow> False
               | p # frac \<Rightarrow> p = CHR ''.'' \<and> frac \<noteq> [] \<and> list_all is_digit frac)))"

text \<open>
  Single-dash strings that begin with \<open>-h\<close> are read as a cluster of short options. The
  argument is what follows \<open>-h\<close>; the result says whether the help action runs
  (\<open>True\<close>) or the string is rejected (\<open>False\<close>).
\<close>

fun short_flags :: "string \<Rightarrow> bool" where
  "short_flags [] = True"
| "short_flags (c # cs) =
     (if c = CHR ''-'' then False
      else if c = CHR ''h'' then
        (case cs of
           [] \<Rightarrow> True
         | d # _ \<Rightarrow> if d = CHR ''='' then False else short_flags cs)
      else True)"

definition parse_optional :: "string \<Rightarrow> opt_class" where
  "parse_optional s =
     (if s = [] then Positional
      else if hd s \<noteq> CHR ''-'' then Positional
      else if s = ''--input_data_path'' then Flag None
      else if s = ''-h'' \<or> s = ''--help'' then HelpExit
      else if length s = 1 then Positional
      else
        (let option_string = takeWhile (\<lambda>c. c \<noteq> CHR ''='') s;
             sep_rest = dropWhile (\<lambda>c. c \<noteq> CHR ''='') s
         in if sep_rest \<noteq> [] \<and> option_string = ''--input_data_path'' then Flag (Some (tl sep_rest))
            else if sep_rest \<noteq> [] \<and> (option_string = ''-h'' \<or> option_string = ''--help'')
              then UsageError
            else if s ! 1 \<noteq> CHR ''-'' \<and> take 2 s = ''-h'' then
              (if short_flags (drop 2 s) then HelpExit else UsageError)
            else if looks_negative_number s then Positional
            else if CHR '' '' \<in> set s then Positional
            else Unknown))"

text \<open>An argument string the parser does not know: neither of its options, and not \<open>--\<close>.\<close>

definition unrecognized :: "string \<Rightarrow> bool" where
  "unrecognized a =
     (a \<noteq> ''--'' \<and> (parse_optional a = Positional \<or> parse_optional a = Unknown))"

record Namespace =
  input_data_path :: "string option"

text \<open>
  The strings are taken from left to right; \<open>Inl code\<close> is the parser ending the
  process with \<open>SystemExit(code)\<close>. \<open>v\<close> is the value stored so far and
  \<open>extras\<close> the strings nobody claimed. After \<open>--\<close> everything is an argument, and with
  no positional to take them they are all extras. \<open>--input_data_path\<close> needs the next
  string to be an argument; a later occurrence overwrites an earlier one.
\<close>

fun parse_loop ::
  "string list \<Rightarrow> string option \<Rightarrow> string list \<Rightarrow> int + (Namespace \<times> string list)" where
  "parse_loop [] v extras = Inr (\<lparr>input_data_path = v\<rparr>, extras)"
| "parse_loop (a # rest) v extras =
     (if a = ''--'' then Inr (\<lparr>input_data_path = v\<rparr>, extras @ a # rest)
      else case parse_optional a of
        Positional \<Rightarrow> parse_loop rest v (extras @ [a])
      | Unknown \<Rightarrow> parse_loop rest v (extras @ [a])
      | HelpExit \<Rightarrow> Inl 0
      | UsageError \<Rightarrow> Inl 2
      | Flag (Some x) \<Rightarrow> parse_loop rest (Some x) extras
      | Flag None \<Rightarrow>
          (case rest of
             [] \<Rightarrow> Inl 2
           | b # rest' \<Rightarrow>
               if b \<noteq> ''--'' \<and> parse_optional b = Positional
               then parse_loop rest' (Some b) extras
               else Inl 2))"

definition parse_known_args :: "string list \<Rightarrow> int + (Namespace \<times> string list)" where
  "parse_known_args argv = parse_loop argv None []"

text \<open>\<open>args, _ = parser.parse_known_args()\<close>: the extras are dropped.\<close>

definition parse_args :: "string list \<Rightarrow> int + Namespace" where
  "parse_args argv =
     (case parse_known_args argv of
        Inl code \<Rightarrow> Inl code
      | Inr (args, _) \<Rightarrow> Inr args)"

subsection \<open>main\<close>

text \<open>
  What a run can touch: the files (path to contents) and the two output streams. A
  printed item is the help text, the usage message, or the printed form of a table.
\<close>

datatype 'df printed = HelpMessage | UsageMessage | Table 'df

record 'df world =
  files :: "string \<rightharpoonup> string"
  stdout :: "'df printed list"
  stderr :: "'df printed list"

text \<open>What the parser writes before it exits: help on standard output, usage on standard error.\<close>

definition argparse_exit :: "int \<Rightarrow> 'df world \<Rightarrow> 'df world" where
  "argparse_exit code w =
     (if code = 0 then w\<lparr>stdout := stdout w @ [HelpMessage]\<rparr>
      else w\<lparr>stderr := stderr w @ [UsageMessage]\<rparr>)"

text \<open>
  \<open>read_json\<close> stands for \<open>pd.read_json(path, lines=True)\<close>: a parameter that reads the
  files and returns the table or the exception it raises. The path may be \<open>None\<close>.
  The result of \<open>main\<close> is \<open>Inr ()\<close> for a normal return and \<open>Inl e\<close> for an exception
  leaving it, with the world after the run.
\<close>

definition main ::
  "((string \<rightharpoonup> string) \<Rightarrow> string option \<Rightarrow> 'e + 'df) \<Rightarrow> string list \<Rightarrow> 'df world \<Rightarrow>
     ('e exn + unit) \<times> 'df world" where
  "main read_json argv w =
     (case parse_args argv of
        Inl code \<Rightarrow> (Inl (SystemExit code), argparse_exit code w)
      | Inr args \<Rightarrow>
          (let path = input_data_path args
           in case read_json (files w) path of
                Inl e \<Rightarrow> (Inl (Raised e), w)
              | Inr input_data_df \<Rightarrow>
                  (Inr (), w\<lparr>stdout := stdout w @ [Table input_data_df]\<rparr>)))"

text \<open>
  A small line-by-line loader to run \<open>main\<close> on concrete files: the table is the list of
  non-empty lines. A \<open>None\<close> path and a missing file raise.
\<close>

fun split_lines :: "string \<Rightarrow> string \<Rightarrow> string list" where
  "split_lines [] cur = (if cur = [] then [] else [cur])"
| "split_lines (c # cs) cur =
     (if c = CHR 0x0A then (if cur = [] then split_lines cs [] else cur # split_lines cs [])
      else split_lines cs (cur @ [c]))"

definition line_loader :: "(string \<rightharpoonup> string) \<Rightarrow> string option \<Rightarrow> string + string list" where
  "line_loader fs p =
     (case p of
        None \<Rightarrow> Inl ''ValueError''
      | Some q \<Rightarrow>
          (case fs q of
             None \<Rightarrow> Inl ''FileNotFoundError''
           | Some text \<Rightarrow> Inr (split_lines text [])))"

text \<open>A world for concrete runs: one data file of two records, nothing printed yet.\<close>

definition sample_world :: "string list world" where
  "sample_world =
     \<lparr>files = [''pf_output.jsonl'' \<mapsto> ''[1, 10]'' @ [CHR 0x0A] @ ''[2, 20]'' @ [CHR 0x0A]],
      stdout = [], stderr = []\<rparr>"

section \<open>Properties of the pipeline builder\<close>

subsection \<open>What build\_pipeline and the definition compute\<close>

lemma build_pipeline_loaded:
  assumes "load_component ''components/preprocess.yaml'' = Inr c0"
    and "load_component ''../flows/experiment/flow.dag.yaml'' = Inr c1"
    and "load_component ''components/postprocess.yaml'' = Inr c2"
  shows "build_pipeline load_component pname st =
           Inr (create_dynamic_evaluation_pipeline pname,
                st\<lparr>pipeline_components := pipeline_components st @ [c0, c1, c2]\<rparr>)"
  using assms by (simp add: build_pipeline_def Let_def)

lemma build_pipeline_InrD:
  assumes "build_pipeline load_component pname st = Inr (d, st')"
  shows "\<exists>c0 c1 c2.
           load_component ''components/preprocess.yaml'' = Inr c0 \<and>
           load_component ''../flows/experiment/flow.dag.yaml'' = Inr c1 \<and>
           load_component ''components/postprocess.yaml'' = Inr c2 \<and>
           d = create_dynamic_evaluation_pipeline pname \<and>
           st' = st\<lparr>pipeline_components := pipeline_components st @ [c0, c1, c2]\<rparr>"
  using assms by (auto simp: build_pipeline_def Let_def split: sum.splits)

lemma build_pipeline_raises:
  assumes "build_pipeline load_component pname st = Inl e"
  shows "\<exists>x. e = Raised x \<and>
           (load_component ''components/preprocess.yaml'' = Inl x \<or>
            load_component ''../flows/experiment/flow.dag.yaml'' = Inl x \<or>
            load_component ''components/postprocess.yaml'' = Inl x)"
  using assms by (auto simp: build_pipeline_def Let_def split: sum.splits)

lemma evaluation_pipeline_three:
  fixes st :: "'c session"
  assumes "3 \<le> length (pipeline_components st)"
  shows "(evaluation_pipeline pname name st :: 'e exn + 'c pipeline_job) =
    Inr \<lparr>pipeline_name = pname,
         job_inputs = [(''name'', name)],
         jobs =
          [(''preprocess'',
            \<lparr>component = pipeline_components st ! 0,
             inputs = [(''input_data_path'',
                        InputArg \<lparr>input_path = AML_DATASTORE_PATH_PREFIX @ AML_DATASTORE_PREPROCESS_FILE_NAME,
                                  input_type = URI_FILE\<rparr>),
                       (''max_records'', IntArg 2)],
             outputs = [(''output_data_path'',
                         \<lparr>output_path = AML_DATASTORE_PATH_PREFIX @ ''preprocess_output.jsonl'',
                          output_type = URI_FILE, output_mode = ''direct''\<rparr>)]\<rparr>),
           (''experiment'',
            \<lparr>component = pipeline_components st ! 1,
             inputs = [(''data'',
                        NodeOutputArg ''preprocess'' ''output_data_path''
                          (Some \<lparr>output_path = AML_DATASTORE_PATH_PREFIX @ ''preprocess_output.jsonl'',
                                 output_type = URI_FILE, output_mode = ''direct''\<rparr>)),
                       (''url'', StrArg ''${data.url}'')],
             outputs = [(''flow_outputs'',
                         \<lparr>output_path = AML_DATASTORE_PATH_PREFIX @ AML_DATASTORE_PROMPTFLOW_FILE_NAME,
                          output_type = URI_FILE, output_mode = ''direct''\<rparr>)]\<rparr>),
           (''postprocess'',
            \<lparr>component = pipeline_components st ! 2,
             inputs = [(''input_data_path'',
                        NodeOutputArg ''experiment'' ''flow_outputs''
                          (Some \<lparr>output_path = AML_DATASTORE_PATH_PREFIX @ AML_DATASTORE_PROMPTFLOW_FILE_NAME,
                                 output_type = URI_FILE, output_mode = ''direct''\<rparr>))],
             outputs = []\<rparr>)],
         default_compute = None\<rparr>"
proof -
  have i0: "index (pipeline_components st) 0 = (Inr (pipeline_components st ! 0) :: 'e exn + 'c)"
    and i1: "index (pipeline_components st) (Suc 0) = (Inr (pipeline_components st ! 1) :: 'e exn + 'c)"
    and i2: "index (pipeline_components st) 2 = (Inr (pipeline_components st ! 2) :: 'e exn + 'c)"
    using assms by (auto simp: index_def)
  show ?thesis
    by (simp add: evaluation_pipeline_def i0 i1 i2 call_component_def set_output_def
        get_output_def Let_def)
qed

lemma evaluation_pipeline_short:
  assumes "length (pipeline_components st) < 3"
  shows "evaluation_pipeline pname name st = (Inl IndexError :: 'e exn + 'c pipeline_job)"
  using assms
  by (auto simp: evaluation_pipeline_def index_def Let_def)

lemma build_pipeline_cong:
  assumes "f ''components/preprocess.yaml'' = g ''components/preprocess.yaml''"
    and "f ''../flows/experiment/flow.dag.yaml'' = g ''../flows/experiment/flow.dag.yaml''"
    and "f ''components/postprocess.yaml'' = g ''components/postprocess.yaml''"
  shows "build_pipeline f pname st = build_pipeline g pname st"
  unfolding build_pipeline_def assms by (rule refl)

lemma preprocess_max_records:
  assumes "3 \<le> length (pipeline_components st)"
    and "evaluation_pipeline pname name st = Inr job"
    and "map_of (jobs job) ''preprocess'' = Some pre"
  shows "map_of (inputs pre) ''max_records'' = Some (IntArg 2)"
  using assms(2,3) unfolding evaluation_pipeline_three [OF assms(1)] by auto

text \<open>
  Claim C1. Built in a fresh module from three loadable descriptors, the pipeline
  definition, when called, yields a job with exactly three stages: \<open>preprocess\<close> made from
  the preprocess component, \<open>experiment\<close> from the prompt-flow component and
  \<open>postprocess\<close> from the postprocess component, in this order.
\<close>

theorem pipeline_three_stages_in_order:
  assumes "pipeline_components st = []"
    and "load_component ''components/preprocess.yaml'' = Inr c0"
    and "load_component ''../flows/experiment/flow.dag.yaml'' = Inr c1"
    and "load_component ''components/postprocess.yaml'' = Inr c2"
  shows "\<exists>pipeline_definition st' job.
           build_pipeline load_component pname st = Inr (pipeline_definition, st') \<and>
           pipeline_definition name st' = Inr job \<and>
           length (jobs job) = 3 \<and>
           stage_names job = [''preprocess'', ''experiment'', ''postprocess''] \<and>
           stage_components job = [c0, c1, c2]"
proof -
  let ?st' = "st\<lparr>pipeline_components := pipeline_components st @ [c0, c1, c2]\<rparr>"
  have built: "build_pipeline load_component pname st =
                 Inr (create_dynamic_evaluation_pipeline pname, ?st')"
    by (rule build_pipeline_loaded [OF assms(2-4)])
  have len: "3 \<le> length (pipeline_components ?st')" by simp
  have comps: "pipeline_components ?st' = [c0, c1, c2]" using assms(1) by simp
  show ?thesis
    unfolding built create_dynamic_evaluation_pipeline_def
    by (simp add: evaluation_pipeline_three [OF len] comps stage_names_def stage_components_def)
qed

theorem pipeline_three_stages_in_order_witness:
  "\<exists>pipeline_definition st' job.
     build_pipeline path_loader ''my_pipeline'' initial_session = Inr (pipeline_definition, st') \<and>
     pipeline_definition ''my_pipeline'' st' = Inr job \<and>
     length (jobs job) = 3 \<and>
     stage_names job = [''preprocess'', ''experiment'', ''postprocess''] \<and>
     stage_components job =
       [''components/preprocess.yaml'', ''../flows/experiment/flow.dag.yaml'',
        ''components/postprocess.yaml'']"
  by (rule pipeline_three_stages_in_order) (simp_all add: initial_session_def path_loader_def)

text \<open>
  Claim C2. In the job of a pipeline definition returned by \<open>build_pipeline\<close>, the
  argument \<open>data\<close> of the evaluation stage is the output port \<open>output_data_path\<close> of
  the stage \<open>preprocess\<close>, carrying the location assigned to that port, and the argument
  \<open>input_data_path\<close> of the postprocess stage is the output port \<open>flow_outputs\<close> of
  the stage \<open>experiment\<close>, carrying the location assigned to that port.
\<close>

theorem stages_wired:
  assumes "build_pipeline load_component pname st = Inr (pipeline_definition, st')"
  shows "\<exists>job pre ex post.
           pipeline_definition name st' = Inr job \<and>
           jobs job = [(''preprocess'', pre), (''experiment'', ex), (''postprocess'', post)] \<and>
           map_of (outputs pre) ''output_data_path'' =
             Some \<lparr>output_path = AML_DATASTORE_PATH_PREFIX @ ''preprocess_output.jsonl'',
                   output_type = URI_FILE, output_mode = ''direct''\<rparr> \<and>
           map_of (inputs ex) ''data'' =
             Some (NodeOutputArg ''preprocess'' ''output_data_path''
                     (Some \<lparr>output_path = AML_DATASTORE_PATH_PREFIX @ ''preprocess_output.jsonl'',
                            output_type = URI_FILE, output_mode = ''direct''\<rparr>)) \<and>
           map_of (outputs ex) ''flow_outputs'' =
             Some \<lparr>output_path = AML_DATASTORE_PATH_PREFIX @ AML_DATASTORE_PROMPTFLOW_FILE_NAME,
                   output_type = URI_FILE, output_mode = ''direct''\<rparr> \<and>
           map_of (inputs post) ''input_data_path'' =
             Some (NodeOutputArg ''experiment'' ''flow_outputs''
                     (Some \<lparr>output_path =
                              AML_DATASTORE_PATH_PREFIX @ AML_DATASTORE_PROMPTFLOW_FILE_NAME,
                            output_type = URI_FILE, output_mode = ''direct''\<rparr>))"
proof -
  from build_pipeline_InrD [OF assms] obtain c0 c1 c2 where
    d: "pipeline_definition = create_dynamic_evaluation_pipeline pname" and
    st': "st' = st\<lparr>pipeline_components := pipeline_components st @ [c0, c1, c2]\<rparr>"
    by blast
  have len: "3 \<le> length (pipeline_components st')" by (simp add: st')
  show ?thesis
    unfolding d create_dynamic_evaluation_pipeline_def evaluation_pipeline_three [OF len]
    by simp
qed

theorem stages_wired_witness:
  "\<exists>job pre ex post.
     create_dynamic_evaluation_pipeline ''my_pipeline'' ''my_pipeline''
       (initial_session\<lparr>pipeline_components :=
          [''components/preprocess.yaml'', ''../flows/experiment/flow.dag.yaml'',
           ''components/postprocess.yaml'']\<rparr>) = (Inr job :: unit exn + string pipeline_job) \<and>
     jobs job = [(''preprocess'', pre), (''experiment'', ex), (''postprocess'', post)] \<and>
     map_of (outputs pre) ''output_data_path'' =
       Some \<lparr>output_path = ''azureml://datastores/workspaceblobstore/paths/preprocess_output.jsonl'',
             output_type = ''uri_file'', output_mode = ''direct''\<rparr> \<and>
     map_of (inputs ex) ''data'' =
       Some (NodeOutputArg ''preprocess'' ''output_data_path''
               (Some \<lparr>output_path =
                        ''azureml://datastores/workspaceblobstore/paths/preprocess_output.jsonl'',
                      output_type = ''uri_file'', output_mode = ''direct''\<rparr>)) \<and>
     map_of (outputs ex) ''flow_outputs'' =
       Some \<lparr>output_path = ''azureml://datastores/workspaceblobstore/paths/pf_output.jsonl'',
             output_type = ''uri_file'', output_mode = ''direct''\<rparr> \<and>
     map_of (inputs post) ''input_data_path'' =
       Some (NodeOutputArg ''experiment'' ''flow_outputs''
               (Some \<lparr>output_path =
                        ''azureml://datastores/workspaceblobstore/paths/pf_output.jsonl'',
                      output_type = ''uri_file'', output_mode = ''direct''\<rparr>))"
proof -
  have "build_pipeline (\<lambda>p. Inr p :: unit + string) ''my_pipeline'' initial_session =
          Inr (create_dynamic_evaluation_pipeline ''my_pipeline'',
               initial_session\<lparr>pipeline_components :=
                 [''components/preprocess.yaml'', ''../flows/experiment/flow.dag.yaml'',
                  ''components/postprocess.yaml'']\<rparr>)"
    by (simp add: build_pipeline_def initial_session_def)
  from stages_wired [OF this, of "''my_pipeline''"] show ?thesis
    by (simp add: AML_DATASTORE_PATH_PREFIX_def AML_DATASTORE_PROMPTFLOW_FILE_NAME_def
        URI_FILE_def)
qed

lemma build_and_instantiate_built:
  assumes "build_pipeline load_component pname st = Inr (pipeline_definition, st')"
  shows "build_and_instantiate load_component pname name st = pipeline_definition name st'"
  using assms by (simp add: build_and_instantiate_def)

text \<open>
  Claim C3, as the code has it. In the job of a pipeline definition returned by
  \<open>build_pipeline\<close>, \<open>data.jsonl\<close> under the datastore prefix is the preprocess stage's
  input and \<open>pf_output.jsonl\<close> under the prefix is the evaluation stage's output; the
  postprocess stage is given no output location, and \<open>postprocess.jsonl\<close> is not among
  the paths of the job (these are \<open>data.jsonl\<close>, \<open>preprocess_output.jsonl\<close> and
  \<open>pf_output.jsonl\<close>).
\<close>

theorem datastore_paths_of_definition:
  assumes "build_pipeline load_component pname st = Inr (pipeline_definition, st')"
  shows "\<exists>job pre ex post.
           pipeline_definition name st' = Inr job \<and>
           jobs job = [(''preprocess'', pre), (''experiment'', ex), (''postprocess'', post)] \<and>
           map_of (inputs pre) ''input_data_path'' =
             Some (InputArg \<lparr>input_path = AML_DATASTORE_PATH_PREFIX @ AML_DATASTORE_PREPROCESS_FILE_NAME,
                             input_type = URI_FILE\<rparr>) \<and>
           stage_output_paths job =
             [(''preprocess'', [AML_DATASTORE_PATH_PREFIX @ ''preprocess_output.jsonl'']),
              (''experiment'', [AML_DATASTORE_PATH_PREFIX @ AML_DATASTORE_PROMPTFLOW_FILE_NAME]),
              (''postprocess'', [])] \<and>
           outputs post = [] \<and>
           set (job_paths job) =
             {AML_DATASTORE_PATH_PREFIX @ AML_DATASTORE_PREPROCESS_FILE_NAME,
              AML_DATASTORE_PATH_PREFIX @ ''preprocess_output.jsonl'',
              AML_DATASTORE_PATH_PREFIX @ AML_DATASTORE_PROMPTFLOW_FILE_NAME} \<and>
           \<not> job_mentions (AML_DATASTORE_PATH_PREFIX @ AML_DATASTORE_POSTPROCESS_FILE_NAME) job"
proof -
  from build_pipeline_InrD [OF assms] obtain c0 c1 c2 where
    d: "pipeline_definition = create_dynamic_evaluation_pipeline pname" and
    st': "st' = st\<lparr>pipeline_components := pipeline_components st @ [c0, c1, c2]\<rparr>"
    by blast
  have len: "3 \<le> length (pipeline_components st')" by (simp add: st')
  have names: "AML_DATASTORE_PREPROCESS_FILE_NAME \<noteq> AML_DATASTORE_POSTPROCESS_FILE_NAME"
    "''preprocess_output.jsonl'' \<noteq> AML_DATASTORE_POSTPROCESS_FILE_NAME"
    "AML_DATASTORE_PROMPTFLOW_FILE_NAME \<noteq> AML_DATASTORE_POSTPROCESS_FILE_NAME"
    by (simp_all add: AML_DATASTORE_PREPROCESS_FILE_NAME_def
        AML_DATASTORE_POSTPROCESS_FILE_NAME_def AML_DATASTORE_PROMPTFLOW_FILE_NAME_def)
  show ?thesis
    unfolding d create_dynamic_evaluation_pipeline_def evaluation_pipeline_three [OF len]
    using names
    by (auto simp: stage_output_paths_def job_paths_def node_paths_def job_mentions_def)
qed

theorem datastore_paths_of_definition_witness:
  "\<exists>job pre ex post.
     build_and_instantiate path_loader ''my_pipeline'' ''my_pipeline'' initial_session = Inr job \<and>
     jobs job = [(''preprocess'', pre), (''experiment'', ex), (''postprocess'', post)] \<and>
     map_of (inputs pre) ''input_data_path'' =
       Some (InputArg \<lparr>input_path = AML_DATASTORE_PATH_PREFIX @ AML_DATASTORE_PREPROCESS_FILE_NAME,
                       input_type = URI_FILE\<rparr>) \<and>
     stage_output_paths job =
       [(''preprocess'', [AML_DATASTORE_PATH_PREFIX @ ''preprocess_output.jsonl'']),
        (''experiment'', [AML_DATASTORE_PATH_PREFIX @ AML_DATASTORE_PROMPTFLOW_FILE_NAME]),
        (''postprocess'', [])] \<and>
     outputs post = [] \<and>
     set (job_paths job) =
       {AML_DATASTORE_PATH_PREFIX @ AML_DATASTORE_PREPROCESS_FILE_NAME,
        AML_DATASTORE_PATH_PREFIX @ ''preprocess_output.jsonl'',
        AML_DATASTORE_PATH_PREFIX @ AML_DATASTORE_PROMPTFLOW_FILE_NAME} \<and>
     \<not> job_mentions (AML_DATASTORE_PATH_PREFIX @ AML_DATASTORE_POSTPROCESS_FILE_NAME) job"
proof -
  have built: "build_pipeline path_loader ''my_pipeline'' (initial_session :: string session) =
          Inr (create_dynamic_evaluation_pipeline ''my_pipeline'',
               initial_session\<lparr>pipeline_components :=
                 [''components/preprocess.yaml'', ''../flows/experiment/flow.dag.yaml'',
                  ''components/postprocess.yaml'']\<rparr>)"
    by (simp add: build_pipeline_def initial_session_def path_loader_def)
  show ?thesis
    unfolding build_and_instantiate_built [OF built]
    by (rule datastore_paths_of_definition [OF built])
qed

text \<open>
  Claim C3 as stated fails: in the job built by the script's own call, the postprocess
  stage has no output location at all, and \<open>postprocess.jsonl\<close> under the datastore
  prefix occurs nowhere in the job.
\<close>

theorem postprocess_output_location_counterexample:
  "map_sum id stage_output_paths
     (build_and_instantiate path_loader AML_PIPELINE_NAME AML_PIPELINE_NAME initial_session) =
     Inr [(''preprocess'', [''azureml://datastores/workspaceblobstore/paths/preprocess_output.jsonl'']),
          (''experiment'', [''azureml://datastores/workspaceblobstore/paths/pf_output.jsonl'']),
          (''postprocess'', [])] \<and>
   map_sum id (job_mentions ''azureml://datastores/workspaceblobstore/paths/postprocess.jsonl'')
     (build_and_instantiate path_loader AML_PIPELINE_NAME AML_PIPELINE_NAME initial_session) =
     Inr False"
  by (simp add: build_and_instantiate_def build_pipeline_def path_loader_def initial_session_def
      create_dynamic_evaluation_pipeline_def evaluation_pipeline_def index_def Let_def
      call_component_def set_output_def get_output_def stage_output_paths_def job_mentions_def
      job_paths_def node_paths_def AML_DATASTORE_PATH_PREFIX_def
      AML_DATASTORE_PREPROCESS_FILE_NAME_def AML_DATASTORE_PROMPTFLOW_FILE_NAME_def)

subsection \<open>Loading, and what build\_pipeline leaves alone\<close>

lemma build_pipeline_calls_components:
  assumes "build_pipeline_calls cs st = Inr st'"
  shows "\<exists>ys. pipeline_components st' = pipeline_components st @ ys \<and> length ys = 3 * length cs"
  using assms
proof (induction cs arbitrary: st)
  case Nil
  then show ?case by simp
next
  case (Cons c cs)
  obtain ld pn where c: "c = (ld, pn)" by (cases c)
  from Cons.prems c obtain d st1 where
    b: "build_pipeline ld pn st = Inr (d, st1)" and r: "build_pipeline_calls cs st1 = Inr st'"
    by (auto split: sum.splits)
  from build_pipeline_InrD [OF b] obtain c0 c1 c2 where
    st1: "st1 = st\<lparr>pipeline_components := pipeline_components st @ [c0, c1, c2]\<rparr>"
    by blast
  from Cons.IH [OF r] obtain ys where
    ys: "pipeline_components st' = pipeline_components st1 @ ys" "length ys = 3 * length cs"
    by blast
  have "pipeline_components st' = pipeline_components st @ ([c0, c1, c2] @ ys)"
    using ys(1) st1 by simp
  moreover have "length ([c0, c1, c2] @ ys) = 3 * length (c # cs)"
    using ys(2) by simp
  ultimately show ?case by blast
qed

text \<open>The script body submits the job it built, once, and streams it.\<close>

lemma run_pipeline_main_submits:
  assumes "run_pipeline_main load_component getenv create_or_update st = Inr st'"
  shows "\<exists>client job job_name.
           submitted st' = submitted st @ [(client, job, AML_EXPERIMENT_NAME)] \<and>
           streamed st' = streamed st @ [job_name] \<and>
           pipeline_name job = AML_PIPELINE_NAME \<and>
           default_compute job = getenv ''AML_COMPUTE_TARGET''"
proof -
  from assms obtain d st1 where b: "build_pipeline load_component AML_PIPELINE_NAME st = Inr (d, st1)"
    by (auto simp: run_pipeline_main_def Let_def split: sum.splits)
  from build_pipeline_InrD [OF b] obtain c0 c1 c2 where
    d: "d = create_dynamic_evaluation_pipeline AML_PIPELINE_NAME" and
    st1: "st1 = st\<lparr>pipeline_components := pipeline_components st @ [c0, c1, c2]\<rparr>"
    by blast
  have len: "3 \<le> length (pipeline_components st1)" by (simp add: st1)
  have "\<exists>job. d AML_PIPELINE_NAME st1 = Inr job \<and> pipeline_name job = AML_PIPELINE_NAME"
    unfolding d create_dynamic_evaluation_pipeline_def evaluation_pipeline_three [OF len]
    by simp
  then obtain job where
    j: "d AML_PIPELINE_NAME st1 = Inr job" "pipeline_name job = AML_PIPELINE_NAME"
    by blast
  have same: "submitted st1 = submitted st" "streamed st1 = streamed st"
    by (simp_all add: st1)
  show ?thesis
    using assms b j same
    by (auto simp: run_pipeline_main_def Let_def split: sum.splits)
qed

text \<open>
  Claim C7. For every pipeline name and every state of the module, \<open>build_pipeline\<close>
  asks the loader for three descriptors, at \<open>components/preprocess.yaml\<close>,
  \<open>../flows/experiment/flow.dag.yaml\<close> and \<open>components/postprocess.yaml\<close>, appends what
  it got in this order, and returns the pipeline definition made for that name; the lists
  of submitted and streamed jobs stay as they were. The definition is a function of a
  name string: in a fresh module, calling it with a name gives the job that has this name
  as its parameter.
\<close>

theorem build_pipeline_loads_three:
  fixes load_component :: "string \<Rightarrow> 'e + 'c"
  assumes "load_component ''components/preprocess.yaml'' = Inr c0"
    and "load_component ''../flows/experiment/flow.dag.yaml'' = Inr c1"
    and "load_component ''components/postprocess.yaml'' = Inr c2"
  shows "\<exists>pipeline_definition st'.
           build_pipeline load_component pname st = Inr (pipeline_definition, st') \<and>
           pipeline_definition = create_dynamic_evaluation_pipeline pname \<and>
           pipeline_components st' = pipeline_components st @ [c0, c1, c2] \<and>
           submitted st' = submitted st \<and>
           streamed st' = streamed st \<and>
           (pipeline_components st = [] \<longrightarrow>
              (\<exists>job. pipeline_definition name st' = Inr job \<and>
                 job_inputs job = [(''name'', name)] \<and>
                 pipeline_name job = pname \<and>
                 stage_components job = [c0, c1, c2]))"
proof -
  let ?st' = "st\<lparr>pipeline_components := pipeline_components st @ [c0, c1, c2]\<rparr>"
  have built: "build_pipeline load_component pname st =
                 Inr (create_dynamic_evaluation_pipeline pname, ?st')"
    by (rule build_pipeline_loaded [OF assms])
  have len: "3 \<le> length (pipeline_components ?st')" by simp
  have call: "\<exists>job. create_dynamic_evaluation_pipeline pname name ?st' =
                   (Inr job :: 'e exn + 'c pipeline_job) \<and>
                 job_inputs job = [(''name'', name)] \<and>
                 pipeline_name job = pname \<and>
                 stage_components job = [c0, c1, c2]"
    if "pipeline_components st = []"
  proof -
    from that have comps: "pipeline_components ?st' = [c0, c1, c2]" by simp
    show ?thesis
      unfolding create_dynamic_evaluation_pipeline_def evaluation_pipeline_three [OF len]
      by (simp add: stage_components_def comps)
  qed
  show ?thesis
    unfolding built using call by simp
qed

theorem build_pipeline_loads_three_witness:
  "\<exists>pipeline_definition st'.
     build_pipeline path_loader ''nightly''
       \<lparr>pipeline_components = [], submitted = [], streamed = [''job-1'']\<rparr> =
       Inr (pipeline_definition, st') \<and>
     pipeline_definition = create_dynamic_evaluation_pipeline ''nightly'' \<and>
     pipeline_components st' =
       [''components/preprocess.yaml'', ''../flows/experiment/flow.dag.yaml'',
        ''components/postprocess.yaml''] \<and>
     submitted st' = [] \<and>
     streamed st' = [''job-1''] \<and>
     (\<exists>job. pipeline_definition ''run-7'' st' = Inr job \<and>
        job_inputs job = [(''name'', ''run-7'')] \<and>
        pipeline_name job = ''nightly'' \<and>
        stage_components job =
          [''components/preprocess.yaml'', ''../flows/experiment/flow.dag.yaml'',
           ''components/postprocess.yaml''])"
  using build_pipeline_loads_three [of path_loader "''components/preprocess.yaml''"
      "''../flows/experiment/flow.dag.yaml''" "''components/postprocess.yaml''" "''nightly''"
      "\<lparr>pipeline_components = [], submitted = [], streamed = [''job-1'']\<rparr>" "''run-7''"]
  by (simp add: path_loader_def)

text \<open>
  Claim C9. Each successful call of \<open>build_pipeline\<close> appends three components to the
  module-level list, so after \<open>n\<close> calls from a fresh module the list has length \<open>3n\<close>
  and a further call changes it again. The pipeline definition reads the entries 0, 1 and
  2, so the definition returned by a later call still builds its stages from the
  components the first call loaded, whatever the later calls loaded.
\<close>

theorem build_pipeline_accumulates:
  assumes "pipeline_components st0 = []"
    and "build_pipeline_calls ((load_first, pname_first) # cs) st0 = Inr st"
    and "build_pipeline load_component pname st = Inr (pipeline_definition, st')"
  shows "length (pipeline_components st) = 3 * (length cs + 1) \<and>
         length (pipeline_components st') = 3 * (length cs + 2) \<and>
         pipeline_components st' \<noteq> pipeline_components st \<and>
         (\<exists>job c0 c1 c2.
            load_first ''components/preprocess.yaml'' = Inr c0 \<and>
            load_first ''../flows/experiment/flow.dag.yaml'' = Inr c1 \<and>
            load_first ''components/postprocess.yaml'' = Inr c2 \<and>
            pipeline_definition name st' = Inr job \<and>
            stage_components job = [c0, c1, c2])"
proof -
  from assms(2) obtain d1 st1 where
    first: "build_pipeline load_first pname_first st0 = Inr (d1, st1)" and
    rest: "build_pipeline_calls cs st1 = Inr st"
    by (auto split: sum.splits)
  from build_pipeline_InrD [OF first] obtain c0 c1 c2 where
    l0: "load_first ''components/preprocess.yaml'' = Inr c0" and
    l1: "load_first ''../flows/experiment/flow.dag.yaml'' = Inr c1" and
    l2: "load_first ''components/postprocess.yaml'' = Inr c2" and
    st1: "st1 = st0\<lparr>pipeline_components := pipeline_components st0 @ [c0, c1, c2]\<rparr>"
    by blast
  from build_pipeline_calls_components [OF rest] obtain ys where
    ys: "pipeline_components st = pipeline_components st1 @ ys" "length ys = 3 * length cs"
    by blast
  from build_pipeline_InrD [OF assms(3)] obtain b0 b1 b2 where
    d: "pipeline_definition = create_dynamic_evaluation_pipeline pname" and
    st': "st' = st\<lparr>pipeline_components := pipeline_components st @ [b0, b1, b2]\<rparr>"
    by blast
  have comps: "pipeline_components st = c0 # c1 # c2 # ys"
    using ys(1) st1 assms(1) by simp
  have comps': "pipeline_components st' = c0 # c1 # c2 # ys @ [b0, b1, b2]"
    using comps st' by simp
  have len: "3 \<le> length (pipeline_components st')" by (simp add: comps')
  have job: "\<exists>job. pipeline_definition name st' = Inr job \<and> stage_components job = [c0, c1, c2]"
    unfolding d create_dynamic_evaluation_pipeline_def evaluation_pipeline_three [OF len]
    by (simp add: stage_components_def comps')
  have "length (pipeline_components st) = 3 * (length cs + 1)"
    using comps ys(2) by simp
  moreover have "length (pipeline_components st') = 3 * (length cs + 2)"
    using comps' ys(2) by simp
  moreover have "pipeline_components st' \<noteq> pipeline_components st"
    using st' by simp
  ultimately show ?thesis
    using l0 l1 l2 job by blast
qed

theorem build_pipeline_accumulates_witness:
  "length (pipeline_components
      (initial_session\<lparr>pipeline_components :=
         [(1, ''components/preprocess.yaml''), (1, ''../flows/experiment/flow.dag.yaml''),
          (1, ''components/postprocess.yaml'')]\<rparr> :: (nat \<times> string) session)) = 3 * (length [] + 1) \<and>
   (\<exists>job.
      create_dynamic_evaluation_pipeline ''second'' ''run''
        (initial_session\<lparr>pipeline_components :=
           [(1, ''components/preprocess.yaml''), (1, ''../flows/experiment/flow.dag.yaml''),
            (1, ''components/postprocess.yaml''), (2, ''components/preprocess.yaml''),
            (2, ''../flows/experiment/flow.dag.yaml''), (2, ''components/postprocess.yaml'')]\<rparr>)
        = (Inr job :: string exn + (nat \<times> string) pipeline_job) \<and>
      stage_components job =
        [(1, ''components/preprocess.yaml''), (1, ''../flows/experiment/flow.dag.yaml''),
         (1, ''components/postprocess.yaml'')])"
proof -
  let ?s0 = "initial_session :: (nat \<times> string) session"
  let ?s1 = "?s0\<lparr>pipeline_components :=
         [(1, ''components/preprocess.yaml''), (1, ''../flows/experiment/flow.dag.yaml''),
          (1, ''components/postprocess.yaml'')]\<rparr>"
  let ?s2 = "?s0\<lparr>pipeline_components :=
           [(1, ''components/preprocess.yaml''), (1, ''../flows/experiment/flow.dag.yaml''),
            (1, ''components/postprocess.yaml''), (2, ''components/preprocess.yaml''),
            (2, ''../flows/experiment/flow.dag.yaml''), (2, ''components/postprocess.yaml'')]\<rparr>"
  have fresh: "pipeline_components ?s0 = []" by (simp add: initial_session_def)
  have calls: "build_pipeline_calls [(versioned_loader 1, ''first'')] ?s0 = Inr ?s1"
    by (simp add: build_pipeline_def versioned_loader_def initial_session_def)
  have later: "build_pipeline (versioned_loader 2) ''second'' ?s1 =
      Inr (create_dynamic_evaluation_pipeline ''second'', ?s2)"
    by (simp add: build_pipeline_def versioned_loader_def initial_session_def)
  from build_pipeline_accumulates [OF fresh calls later, of "''run''"]
  show ?thesis by (simp add: versioned_loader_def)
qed

section \<open>Properties of the postprocess script\<close>

subsection \<open>The parser\<close>

lemma parse_loop_unrecognized_prefix:
  assumes "\<forall>a\<in>set xs. unrecognized a"
  shows "parse_loop (xs @ rest) v extras = parse_loop rest v (extras @ xs)"
  using assms
proof (induction xs arbitrary: extras)
  case Nil
  then show ?case by simp
next
  case (Cons a xs)
  from Cons.prems have a: "a \<noteq> ''--''" "parse_optional a = Positional \<or> parse_optional a = Unknown"
    and xs: "\<forall>b\<in>set xs. unrecognized b"
    by (simp_all add: unrecognized_def)
  from a Cons.IH [OF xs] show ?case by auto
qed

lemma parse_loop_no_option:
  assumes "\<forall>a\<in>set ys. unrecognized a \<or> a = ''--''"
  shows "parse_loop ys v extras = Inr (\<lparr>input_data_path = v\<rparr>, extras @ ys)"
  using assms
proof (induction ys arbitrary: extras)
  case Nil
  then show ?case by simp
next
  case (Cons a ys)
  show ?case
  proof (cases "a = ''--''")
    case True
    then show ?thesis by simp
  next
    case False
    with Cons.prems have a: "parse_optional a = Positional \<or> parse_optional a = Unknown"
      and ys: "\<forall>b\<in>set ys. unrecognized b \<or> b = ''--''"
      by (simp_all add: unrecognized_def)
    from False a Cons.IH [OF ys] show ?thesis by auto
  qed
qed

lemma parse_args_flag_value:
  assumes "\<forall>a\<in>set xs. unrecognized a"
    and "\<forall>a\<in>set ys. unrecognized a \<or> a = ''--''"
    and "parse_optional p = Positional"
  shows "parse_known_args (xs @ ''--input_data_path'' # p # ys) =
           Inr (\<lparr>input_data_path = Some p\<rparr>, xs @ ys)"
proof -
  have flag: "parse_optional ''--input_data_path'' = Flag None"
    by (simp add: parse_optional_def)
  have dd: "parse_optional ''--'' = Unknown"
    by (simp add: parse_optional_def looks_negative_number_def is_digit_def)
  have p: "p \<noteq> ''--''" using assms(3) dd by auto
  have "parse_known_args (xs @ ''--input_data_path'' # p # ys) =
          parse_loop (''--input_data_path'' # p # ys) None xs"
    using parse_loop_unrecognized_prefix [OF assms(1)] by (simp add: parse_known_args_def)
  also have "\<dots> = parse_loop ys (Some p) xs"
    using flag p assms(3) by simp
  also have "\<dots> = Inr (\<lparr>input_data_path = Some p\<rparr>, xs @ ys)"
    by (rule parse_loop_no_option [OF assms(2)])
  finally show ?thesis .
qed



subsection \<open>main\<close>

lemma main_prints_table:
  assumes "parse_args argv = Inr args"
    and "read_json (files w) (input_data_path args) = Inr df"
  shows "main read_json argv w = (Inr (), w\<lparr>stdout := stdout w @ [Table df]\<rparr>)"
  using assms by (simp add: main_def)

lemma main_sample_run:
  "main line_loader [''--input_data_path'', ''pf_output.jsonl''] sample_world =
     (Inr (), sample_world\<lparr>stdout := [Table [''[1, 10]'', ''[2, 20]'']]\<rparr>)"
  by (simp add: main_def parse_args_def parse_known_args_def parse_optional_def
      line_loader_def sample_world_def)

lemma main_returns_only_after_load:
  assumes "fst (main read_json argv w) = Inr ()"
  shows "\<exists>args df. parse_args argv = Inr args \<and>
           read_json (files w) (input_data_path args) = Inr df \<and>
           snd (main read_json argv w) = w\<lparr>stdout := stdout w @ [Table df]\<rparr>"
  using assms by (auto simp: main_def Let_def split: sum.splits)

text \<open>
  Claim C5. Whenever the loader raises on the path taken from the command line, as it does
  for a missing file, \<open>main\<close> ends with that very exception: it is not caught and not
  replaced, nothing is printed, and the run is not a normal return.
\<close>

theorem loader_exception_propagates:
  assumes "parse_args argv = Inr args"
    and "read_json (files w) (input_data_path args) = Inl e"
  shows "main read_json argv w = (Inl (Raised e), w) \<and> fst (main read_json argv w) \<noteq> Inr ()"
  using assms by (simp add: main_def)

theorem loader_exception_propagates_witness:
  "main line_loader [''--input_data_path'', ''missing.jsonl''] sample_world =
     (Inl (Raised ''FileNotFoundError''), sample_world) \<and>
   fst (main line_loader [''--input_data_path'', ''missing.jsonl''] sample_world) \<noteq> Inr ()"
proof -
  have args: "parse_args [''--input_data_path'', ''missing.jsonl''] =
      Inr \<lparr>input_data_path = Some ''missing.jsonl''\<rparr>"
    by (simp add: parse_args_def parse_known_args_def parse_optional_def)
  have load: "line_loader (files sample_world)
      (input_data_path \<lparr>input_data_path = Some ''missing.jsonl''\<rparr>) = Inl ''FileNotFoundError''"
    by (simp add: line_loader_def sample_world_def)
  from loader_exception_propagates [of "[''--input_data_path'', ''missing.jsonl'']"
      "\<lparr>input_data_path = Some ''missing.jsonl''\<rparr>" line_loader sample_world
      "''FileNotFoundError''", OF args load]
  show ?thesis .
qed



text \<open>
  Claim C10. When the command line holds no option the parser knows (no
  \<open>--input_data_path\<close>, whatever else is there), parsing succeeds with
  \<open>input_data_path = None\<close>: no usage error, and all the strings end up in the extras that
  \<open>parse_args\<close> drops. Unknown strings around a given \<open>--input_data_path p\<close> are dropped
  the same way. With the flag omitted, \<open>main\<close> goes on to call the loader with \<open>None\<close>,
  and the outcome of the run is the outcome of that call.
\<close>

theorem omitted_flag_gives_none:
  assumes "\<forall>a\<in>set argv. unrecognized a \<or> a = ''--''"
    and "\<forall>a\<in>set xs. unrecognized a"
    and "\<forall>a\<in>set ys. unrecognized a \<or> a = ''--''"
    and "parse_optional p = Positional"
  shows "parse_known_args argv = Inr (\<lparr>input_data_path = None\<rparr>, argv) \<and>
         parse_args argv = Inr \<lparr>input_data_path = None\<rparr> \<and>
         parse_args (xs @ ''--input_data_path'' # p # ys) = Inr \<lparr>input_data_path = Some p\<rparr> \<and>
         main read_json argv w =
           (case read_json (files w) None of
              Inl e \<Rightarrow> (Inl (Raised e), w)
            | Inr df \<Rightarrow> (Inr (), w\<lparr>stdout := stdout w @ [Table df]\<rparr>))"
proof -
  have known: "parse_known_args argv = Inr (\<lparr>input_data_path = None\<rparr>, argv)"
    using parse_loop_no_option [OF assms(1), of None "[]"] by (simp add: parse_known_args_def)
  then have args: "parse_args argv = Inr \<lparr>input_data_path = None\<rparr>"
    by (simp add: parse_args_def)
  have flag: "parse_args (xs @ ''--input_data_path'' # p # ys) = Inr \<lparr>input_data_path = Some p\<rparr>"
    using parse_args_flag_value [OF assms(2-4)] by (simp add: parse_args_def)
  have run: "main read_json argv w =
           (case read_json (files w) None of
              Inl e \<Rightarrow> (Inl (Raised e), w)
            | Inr df \<Rightarrow> (Inr (), w\<lparr>stdout := stdout w @ [Table df]\<rparr>))"
    by (simp add: main_def args split: sum.splits)
  from known args flag run show ?thesis by blast
qed

theorem omitted_flag_gives_none_witness:
  "parse_known_args [''--verbose'', ''extra.txt'', ''--'', ''-x=1''] =
     Inr (\<lparr>input_data_path = None\<rparr>, [''--verbose'', ''extra.txt'', ''--'', ''-x=1'']) \<and>
   parse_args [''--verbose'', ''extra.txt'', ''--'', ''-x=1''] = Inr \<lparr>input_data_path = None\<rparr> \<and>
   parse_args [''--verbose'', ''--input_data_path'', ''pf_output.jsonl'', ''extra.txt'', ''--''] =
     Inr \<lparr>input_data_path = Some ''pf_output.jsonl''\<rparr> \<and>
   main line_loader [''--verbose'', ''extra.txt'', ''--'', ''-x=1''] sample_world =
     (Inl (Raised ''ValueError''), sample_world)"
proof -
  have u: "unrecognized ''--verbose''" "unrecognized ''extra.txt''" "unrecognized ''-x=1''"
    by (simp_all add: unrecognized_def parse_optional_def looks_negative_number_def is_digit_def)
  have p: "parse_optional ''pf_output.jsonl'' = Positional"
    by (simp add: parse_optional_def)
  have h1: "\<forall>a\<in>set [''--verbose'', ''extra.txt'', ''--'', ''-x=1'']. unrecognized a \<or> a = ''--''"
    using u by simp
  have h2: "\<forall>a\<in>set [''--verbose'']. unrecognized a"
    using u by simp
  have h3: "\<forall>a\<in>set [''extra.txt'', ''--'']. unrecognized a \<or> a = ''--''"
    using u by simp
  from omitted_flag_gives_none [OF h1 h2 h3 p, of line_loader sample_world]
  show ?thesis by (simp add: line_loader_def)
qed

end
